theory Spec2Isabelle
  imports Main "HOL-Library.Sublist"
begin

section \<open>The memory manager of DietAI (memory\_manager.py)\<close>

text \<open>
  The class \<^verbatim>\<open>MemoryManager\<close> keeps a buffer of raw chat messages and a counter of user
  messages in memory, and two text files on disk: the short-term store, to which
  summaries of message batches are appended, and the long-term store, to which one
  delimited summary per session is appended.

  Python strings are modelled as \<^typ>\<open>string\<close>, restricted to the code points below 256.
  The language model, the clock and the outcome of each file write are parameters of the
  operations. Reading a file that exists is modelled as succeeding and as returning its
  content as it is: the translation of carriage returns by text-mode reading is not
  modelled.
\<close>

subsection \<open>Python string and list operations\<close>

text \<open>\<^verbatim>\<open>str.isspace\<close> on one character, for the code points below 256.\<close>

definition isspace :: "char \<Rightarrow> bool" where
  "isspace c = (c \<in> set [CHR 0x09, CHR 0x0A, CHR 0x0B, CHR 0x0C, CHR 0x0D, CHR 0x1C,
                          CHR 0x1D, CHR 0x1E, CHR 0x1F, CHR 0x20, CHR 0x85, CHR 0xA0])"

text \<open>\<^verbatim>\<open>s.strip()\<close>: leading and trailing whitespace removed.\<close>

definition strip :: "string \<Rightarrow> string" where
  "strip s = rev (dropWhile isspace (rev (dropWhile isspace s)))"

text \<open>\<^verbatim>\<open>s.startswith(p)\<close>.\<close>

definition startswith :: "string \<Rightarrow> string \<Rightarrow> bool" where
  "startswith s p = (take (length p) s = p)"

text \<open>\<^verbatim>\<open>p in s\<close> for strings: \<open>p\<close> occurs in \<open>s\<close> as a substring.\<close>

fun contains :: "string \<Rightarrow> string \<Rightarrow> bool" where
  "contains [] p = (p = [])"
| "contains (c # cs) p = (startswith (c # cs) p \<or> contains cs p)"

text \<open>\<^verbatim>\<open>s.split('\n')\<close>: never empty, the empty string gives one empty line.\<close>

definition split_step :: "char \<Rightarrow> string list \<Rightarrow> string list" where
  "split_step c ls = (if c = CHR 0x0A then [] # ls else (c # hd ls) # tl ls)"

fun split_nl :: "string \<Rightarrow> string list" where
  "split_nl [] = [[]]"
| "split_nl (c # cs) = split_step c (split_nl cs)"

text \<open>\<^verbatim>\<open>'\n'.join(ls)\<close>.\<close>

fun join_nl :: "string list \<Rightarrow> string" where
  "join_nl [] = []"
| "join_nl [l] = l"
| "join_nl (l # ls) = l @ ''\<newline>'' @ join_nl ls"

text \<open>
  \<^verbatim>\<open>xs[i:]\<close>: a negative start counts from the end and is clamped at the beginning of
  the list, a start beyond the end gives the empty list. The source uses it as
  \<^verbatim>\<open>xs[-n:]\<close>, which for \<open>n = 0\<close> is \<^verbatim>\<open>xs[0:]\<close>, the whole list.
\<close>

definition slice_from :: "int \<Rightarrow> 'a list \<Rightarrow> 'a list" where
  "slice_from i xs =
     (if i < 0 then drop (nat (int (length xs) + i)) xs else drop (nat i) xs)"

subsection \<open>The clock\<close>

text \<open>
  A reading of \<^verbatim>\<open>datetime.now()\<close>, and the two formats the source prints it in:
  \<^verbatim>\<open>strftime("%Y-%m-%d")\<close> and \<^verbatim>\<open>strftime("%Y-%m-%d %H:%M:%S")\<close>, each field
  zero-padded to its width.
\<close>

record datetime =
  year :: nat
  month :: nat
  day :: nat
  hour :: nat
  minute :: nat
  second :: nat

definition digit :: "nat \<Rightarrow> char" where
  "digit n = ''0123456789'' ! (n mod 10)"

definition pad2 :: "nat \<Rightarrow> string" where
  "pad2 n = [digit (n div 10), digit n]"

definition pad4 :: "nat \<Rightarrow> string" where
  "pad4 n = [digit (n div 1000), digit (n div 100), digit (n div 10), digit n]"

definition strftime_date :: "datetime \<Rightarrow> string" where
  "strftime_date dt = pad4 (year dt) @ ''-'' @ pad2 (month dt) @ ''-'' @ pad2 (day dt)"

definition strftime_datetime :: "datetime \<Rightarrow> string" where
  "strftime_datetime dt =
     strftime_date dt @ '' '' @ pad2 (hour dt) @ '':'' @ pad2 (minute dt) @ '':''
       @ pad2 (second dt)"

subsection \<open>Messages, errors, the language model and the files\<close>

record message =
  role :: string
  content :: string

datatype error = LLMError | IOError

text \<open>
  \<^verbatim>\<open>llm.create_chat_completion(messages=..., max_tokens=..., temperature=0.3,
  stream=False)\<close> followed by \<^verbatim>\<open>response['choices'][0]['message']['content']\<close>: the
  messages and the token budget go in, and either the text comes out or the call (or the
  indexing of its response) raises.
\<close>

type_synonym llm = "message list \<Rightarrow> nat \<Rightarrow> error + string"

text \<open>
  The outcome of one \<^verbatim>\<open>with open(...) as f: f.write(...)\<close> block: it succeeds, or
  \<^verbatim>\<open>open\<close> raises and the file is untouched, or a write raises after some number of
  characters has reached the file.
\<close>

datatype io_outcome = IO_Ok | IO_OpenFail | IO_WriteFail nat

text \<open>A file is its content, or \<open>None\<close> when it does not exist.\<close>

definition file_text :: "string option \<Rightarrow> string" where
  "file_text f = (case f of None \<Rightarrow> [] | Some t \<Rightarrow> t)"

text \<open>Mode \<^verbatim>\<open>'w'\<close>: the file is created or truncated, then written.\<close>

fun write_file :: "io_outcome \<Rightarrow> string \<Rightarrow> string option \<Rightarrow> bool \<times> string option" where
  "write_file IO_Ok d f = (True, Some d)"
| "write_file IO_OpenFail d f = (False, f)"
| "write_file (IO_WriteFail n) d f = (False, Some (take n d))"

text \<open>Mode \<^verbatim>\<open>'a'\<close>: the file is created if absent, and written at its end.\<close>

fun append_file :: "io_outcome \<Rightarrow> string \<Rightarrow> string option \<Rightarrow> bool \<times> string option" where
  "append_file IO_Ok d f = (True, Some (file_text f @ d))"
| "append_file IO_OpenFail d f = (False, f)"
| "append_file (IO_WriteFail n) d f = (False, Some (file_text f @ take n d))"

text \<open>
  What an operation reads from the world while it runs: the clock (read once by
  \<^verbatim>\<open>summarize_short_term_memory\<close>, twice by \<^verbatim>\<open>save_to_long_term_memory\<close>) and the
  outcomes of its first and second file write.
\<close>

record world =
  now1 :: datetime
  now2 :: datetime
  write1 :: io_outcome
  write2 :: io_outcome

subsection \<open>The manager\<close>

text \<open>
  The fields of \<^verbatim>\<open>MemoryManager\<close>. The two file fields stand for the files at the paths
  the object holds.
\<close>

record memory_manager =
  short_term_file :: "string option"
  long_term_file :: "string option"
  short_term_limit :: int
  long_term_sessions :: int
  message_counter :: int
  message_buffer :: "message list"

definition short_term_header :: string where
  "short_term_header =
     ''# Short-term memory for current session\<newline>''
     @ ''# Stores up to 10 message pairs before summarization\<newline>\<newline>''"

definition long_term_header :: string where
  "long_term_header =
     ''# Long-term memory for previous sessions\<newline>''
     @ ''# Stores summaries of past conversations\<newline>\<newline>''"

definition ensure_memory_files :: "memory_manager \<Rightarrow> memory_manager" where
  "ensure_memory_files s =
     (let s1 = (if short_term_file s = None
                then s\<lparr>short_term_file := Some short_term_header\<rparr> else s)
      in if long_term_file s1 = None
         then s1\<lparr>long_term_file := Some long_term_header\<rparr> else s1)"

text \<open>
  \<^verbatim>\<open>__init__\<close>: the two settings come from the configuration, with the fallbacks 10 and 3
  when the key is missing; the files are the ones found on disk.
\<close>

definition init :: "int option \<Rightarrow> int option \<Rightarrow> string option \<Rightarrow> string option \<Rightarrow> memory_manager" where
  "init cfg_limit cfg_sessions st lt =
     ensure_memory_files
       \<lparr>short_term_file = st, long_term_file = lt,
        short_term_limit = (case cfg_limit of None \<Rightarrow> 10 | Some n \<Rightarrow> n),
        long_term_sessions = (case cfg_sessions of None \<Rightarrow> 3 | Some n \<Rightarrow> n),
        message_counter = 0, message_buffer = []\<rparr>"

definition add_message :: "string \<Rightarrow> string \<Rightarrow> memory_manager \<Rightarrow> memory_manager" where
  "add_message r c s =
     (let s1 = s\<lparr>message_buffer := message_buffer s @ [\<lparr>role = r, content = c\<rparr>]\<rparr>
      in if r = ''user'' then s1\<lparr>message_counter := message_counter s1 + 1\<rparr> else s1)"

text \<open>The method returns a boolean; the manager it leaves behind is returned with it.\<close>

definition should_summarize :: "memory_manager \<Rightarrow> bool \<times> memory_manager" where
  "should_summarize s = (message_counter s \<ge> short_term_limit s, s)"

definition role_label :: "message \<Rightarrow> string" where
  "role_label m = (if role m = ''user'' then ''User'' else ''Assistant'')"

text \<open>The loop that renders messages, one labelled line each, after a heading.\<close>

definition render_messages :: "string \<Rightarrow> message list \<Rightarrow> string" where
  "render_messages heading ms =
     foldl (\<lambda>t m. t @ role_label m @ '': '' @ content m @ ''\<newline>'') heading ms"

definition short_term_prompt :: "message list \<Rightarrow> message list" where
  "short_term_prompt messages_to_summarize =
     (let transcript = render_messages ''Conversation Transcript:\<newline>'' messages_to_summarize;
          summarization_prompt =
            ''Summarize this conversation batch, focusing on meals discussed, ''
            @ ''any new preferences/allergies mentioned, and the recommended macro split.\<newline>\<newline>''
            @ transcript @ ''\<newline>\<newline>''
            @ ''Provide a concise summary:''
      in [\<lparr>role = ''system'',
           content = ''You are a helpful assistant that summarizes dietary conversations.''\<rparr>,
          \<lparr>role = ''user'', content = summarization_prompt\<rparr>])"

text \<open>
  The block appended to the short-term store for one summary: the marker line with the
  timestamp, the summary, and the separator line \<^verbatim>\<open>"-" * 50\<close>.
\<close>

definition short_term_marker :: "string \<Rightarrow> string" where
  "short_term_marker timestamp = ''--- Summary ('' @ timestamp @ '') ---''"

definition separator_line :: string where
  "separator_line = replicate 50 (CHR ''-'')"

definition short_term_entry :: "string \<Rightarrow> string \<Rightarrow> string" where
  "short_term_entry timestamp summary =
     ''\<newline>'' @ short_term_marker timestamp @ ''\<newline>''
     @ summary @ ''\<newline>''
     @ separator_line @ ''\<newline>''"

definition summarize_short_term_memory ::
  "llm \<Rightarrow> world \<Rightarrow> memory_manager \<Rightarrow> (error + string) \<times> memory_manager" where
  "summarize_short_term_memory llm w s =
     (if message_buffer s = [] then (Inr [], s)
      else
        let messages_to_summarize = slice_from (- short_term_limit s) (message_buffer s)
        in case llm (short_term_prompt messages_to_summarize) 512 of
             Inl e \<Rightarrow> (Inl e, s)
           | Inr summary \<Rightarrow>
               let timestamp = strftime_datetime (now1 w);
                   (ok, f) = append_file (write1 w) (short_term_entry timestamp summary)
                               (short_term_file s);
                   s1 = s\<lparr>short_term_file := f\<rparr>
               in if \<not> ok then (Inl IOError, s1)
                  else (Inr summary, s1\<lparr>message_buffer := [], message_counter := 0\<rparr>))"

definition long_term_prompt :: "string \<Rightarrow> message list" where
  "long_term_prompt short_term_content =
     (let summarization_prompt =
            ''Consolidate this short-term history into key long-term dietary trends, ''
            @ ''macro compliance, and persistent recommendations.\<newline>\<newline>''
            @ short_term_content @ ''\<newline>\<newline>''
            @ ''Provide a comprehensive summary focusing on:\<newline>''
            @ ''- Key dietary trends and patterns\<newline>''
            @ ''- Macro compliance over time\<newline>''
            @ ''- Persistent recommendations and preferences\<newline>''
            @ ''- Important health-related notes:''
      in [\<lparr>role = ''system'',
           content = ''You are a helpful assistant that creates comprehensive dietary summaries.''\<rparr>,
          \<lparr>role = ''user'', content = summarization_prompt\<rparr>])"

text \<open>The opening marker line of a long-term entry, and the block appended for it.\<close>

definition session_marker :: "string \<Rightarrow> string \<Rightarrow> string" where
  "session_marker session_date timestamp =
     ''=== Session Summary ('' @ session_date @ '') - '' @ timestamp @ '' ===''"

text \<open>The closing line of a long-term entry, \<^verbatim>\<open>"=" * 60\<close>.\<close>

definition closing_delimiter :: string where
  "closing_delimiter = replicate 60 (CHR ''='')"

definition long_term_entry :: "string \<Rightarrow> string \<Rightarrow> string \<Rightarrow> string" where
  "long_term_entry session_date timestamp comprehensive_summary =
     ''\<newline>'' @ session_marker session_date timestamp @ ''\<newline>''
     @ comprehensive_summary @ ''\<newline>''
     @ closing_delimiter @ ''\<newline>''"

text \<open>The test the source applies to a store's content before using it.\<close>

definition no_content :: "string \<Rightarrow> bool" where
  "no_content t = (strip t = [] \<or> startswith (strip t) ''#'')"

definition save_to_long_term_memory ::
  "llm \<Rightarrow> world \<Rightarrow> memory_manager \<Rightarrow> (error + unit) \<times> memory_manager" where
  "save_to_long_term_memory llm w s =
     (case short_term_file s of
        None \<Rightarrow> (Inr (), s)
      | Some short_term_content \<Rightarrow>
          if no_content short_term_content then (Inr (), s)
          else
            case llm (long_term_prompt short_term_content) 1024 of
              Inl e \<Rightarrow> (Inl e, s)
            | Inr comprehensive_summary \<Rightarrow>
                let session_date = strftime_date (now1 w);
                    timestamp = strftime_datetime (now2 w);
                    (ok1, lt) = append_file (write1 w)
                                  (long_term_entry session_date timestamp comprehensive_summary)
                                  (long_term_file s);
                    s1 = s\<lparr>long_term_file := lt\<rparr>
                in if \<not> ok1 then (Inl IOError, s1)
                   else
                     let (ok2, st) = write_file (write2 w) short_term_header (short_term_file s1);
                         s2 = s1\<lparr>short_term_file := st\<rparr>
                     in if \<not> ok2 then (Inl IOError, s2)
                        else (Inr (), s2\<lparr>message_buffer := [], message_counter := 0\<rparr>))"

text \<open>
  The scan of the long-term store, line by line. The loop's variables are the sessions
  found so far, the lines of the session being read, and whether one is being read.
  A line opens a session when \<^verbatim>\<open>line.startswith('===') and 'Session Summary' in line\<close>,
  and closes the one being read when \<^verbatim>\<open>line.startswith('=' * 60)\<close>.
\<close>

definition opens_session :: "string \<Rightarrow> bool" where
  "opens_session line = (startswith line ''==='' \<and> contains line ''Session Summary'')"

definition closes_session :: "string \<Rightarrow> bool" where
  "closes_session line = startswith line closing_delimiter"

definition scan_line ::
  "string list \<times> string list \<times> bool \<Rightarrow> string \<Rightarrow> string list \<times> string list \<times> bool" where
  "scan_line st line =
     (case st of (sessions, current_session, in_session) \<Rightarrow>
        if opens_session line then
          ((if current_session \<noteq> [] \<and> in_session
            then sessions @ [join_nl current_session] else sessions),
           [line], True)
        else if in_session then
          (if closes_session line
           then (sessions @ [join_nl (current_session @ [line])], [], False)
           else (sessions, current_session @ [line], in_session))
        else (sessions, current_session, in_session))"

definition extract_sessions :: "string \<Rightarrow> string list" where
  "extract_sessions t = fst (foldl scan_line ([], [], False) (split_nl t))"

definition recent_sessions :: "int \<Rightarrow> string list \<Rightarrow> string list" where
  "recent_sessions n sessions = (if sessions \<noteq> [] then slice_from (- n) sessions else [])"

definition context_heading :: string where
  "context_heading = ''Previous Session Summaries:\<newline>'' @ replicate 60 (CHR ''-'') @ ''\<newline>''"

definition load_long_term_memory_context :: "memory_manager \<Rightarrow> string" where
  "load_long_term_memory_context s =
     (case long_term_file s of
        None \<Rightarrow> []
      | Some t \<Rightarrow>
          if no_content t then []
          else
            let recent = recent_sessions (long_term_sessions s) (extract_sessions t)
            in if recent = [] then []
               else foldl (\<lambda>context session. context @ session @ ''\<newline>\<newline>'')
                      context_heading recent)"

definition get_short_term_memory_context :: "memory_manager \<Rightarrow> string" where
  "get_short_term_memory_context s =
     (if message_buffer s = [] then
        (case short_term_file s of
           None \<Rightarrow> []
         | Some t \<Rightarrow> if t \<noteq> [] \<and> \<not> startswith (strip t) ''#'' then t else [])
      else render_messages ''Current Session Messages:\<newline>'' (message_buffer s))"

definition clear_short_term_memory ::
  "world \<Rightarrow> memory_manager \<Rightarrow> (error + unit) \<times> memory_manager" where
  "clear_short_term_memory w s =
     (let s1 = s\<lparr>message_buffer := [], message_counter := 0\<rparr>;
          (ok, f) = write_file (write1 w) short_term_header (short_term_file s1);
          s2 = s1\<lparr>short_term_file := f\<rparr>
      in if \<not> ok then (Inl IOError, s2) else (Inr (), s2))"

definition get_long_term_history :: "memory_manager \<Rightarrow> string" where
  "get_long_term_history s =
     (case long_term_file s of
        None \<Rightarrow> ''No long-term memory found.''
      | Some t \<Rightarrow>
          if no_content t then ''No previous session summaries found.''
          else t)"

subsection \<open>Sequences of calls, and the counter invariant\<close>

text \<open>The number of buffered messages whose role is exactly \<^verbatim>\<open>"user"\<close>.\<close>

definition count_user :: "message list \<Rightarrow> int" where
  "count_user ms = int (length (filter (\<lambda>m. role m = ''user'') ms))"

definition counter_invariant :: "memory_manager \<Rightarrow> bool" where
  "counter_invariant s = (message_counter s = count_user (message_buffer s))"

text \<open>A sequence of \<^verbatim>\<open>add_message(role, content)\<close> calls, and its number of user messages.\<close>

fun add_messages :: "(string \<times> string) list \<Rightarrow> memory_manager \<Rightarrow> memory_manager" where
  "add_messages [] s = s"
| "add_messages ((r, c) # calls) s = add_messages calls (add_message r c s)"

definition user_calls :: "(string \<times> string) list \<Rightarrow> int" where
  "user_calls calls = int (length (filter (\<lambda>rc. fst rc = ''user'') calls))"

text \<open>The operations that change the manager, and the manager each one leaves behind,
  whether it returns or raises.\<close>

datatype operation =
    AddMessage string string
  | Summarize
  | SaveLongTerm
  | ClearShortTerm

fun run_operation :: "llm \<Rightarrow> world \<Rightarrow> operation \<Rightarrow> memory_manager \<Rightarrow> memory_manager" where
  "run_operation llm w (AddMessage r c) s = add_message r c s"
| "run_operation llm w Summarize s = snd (summarize_short_term_memory llm w s)"
| "run_operation llm w SaveLongTerm s = snd (save_to_long_term_memory llm w s)"
| "run_operation llm w ClearShortTerm s = snd (clear_short_term_memory w s)"

subsection \<open>Example inputs\<close>

definition example_clock :: datetime where
  "example_clock = \<lparr>year = 2024, month = 5, day = 17, hour = 9, minute = 30, second = 0\<rparr>"

definition example_world :: world where
  "example_world =
     \<lparr>now1 = example_clock, now2 = example_clock, write1 = IO_Ok, write2 = IO_Ok\<rparr>"

text \<open>A world in which the first write raises after five characters.\<close>

definition failing_world :: world where
  "failing_world =
     \<lparr>now1 = example_clock, now2 = example_clock, write1 = IO_WriteFail 5, write2 = IO_Ok\<rparr>"

definition example_llm :: llm where
  "example_llm ms n = Inr ''Oatmeal with berries''"

definition failing_llm :: llm where
  "failing_llm ms n = Inl LLMError"

text \<open>A fresh manager with threshold 3 and no files on disk before it starts.\<close>

definition example_manager :: memory_manager where
  "example_manager = init (Some 3) None None None"

definition example_turn :: "(string \<times> string) list" where
  "example_turn =
     [(''user'', ''What is a good breakfast?''),
      (''assistant'', ''Oatmeal with berries, 30g protein'')]"

text \<open>The example manager after one user turn and its reply.\<close>

definition pending_manager :: memory_manager where
  "pending_manager = add_messages example_turn example_manager"

text \<open>
  The example manager after three user turns with their replies, the threshold of 3
  reached, and the summarization that follows.
\<close>

definition summarized_manager :: memory_manager where
  "summarized_manager =
     snd (summarize_short_term_memory example_llm example_world
            (add_messages (example_turn @ example_turn @ example_turn) example_manager))"

text \<open>A manager whose long-term store holds its header and one session entry.\<close>

definition archived_manager :: memory_manager where
  "archived_manager =
     example_manager\<lparr>long_term_file :=
        Some (long_term_header
              @ long_term_entry ''2024-05-17'' ''2024-05-17 09:30:00'' ''Prefers oatmeal'')\<rparr>"

subsection \<open>Entries of the short-term store\<close>



subsection \<open>Further example inputs\<close>





section \<open>Properties\<close>

subsection \<open>The counter and the threshold\<close>

lemma add_message_counter:
  "message_counter (add_message r c s) = message_counter s + (if r = ''user'' then 1 else 0)"
  by (simp add: add_message_def Let_def)

lemma add_message_limit:
  "short_term_limit (add_message r c s) = short_term_limit s"
  by (simp add: add_message_def Let_def)

lemma add_messages_counter:
  "message_counter (add_messages calls s) = message_counter s + user_calls calls"
  by (induction calls s rule: add_messages.induct)
     (simp_all add: add_message_counter user_calls_def)

lemma add_messages_limit:
  "short_term_limit (add_messages calls s) = short_term_limit s"
  by (induction calls s rule: add_messages.induct) (simp_all add: add_message_limit)

lemma user_calls_append: "user_calls (xs @ ys) = user_calls xs + user_calls ys"
  by (simp add: user_calls_def)

lemma user_calls_take: "user_calls (take k calls) \<le> user_calls calls"
proof -
  have "user_calls (take k calls @ drop k calls)
          = user_calls (take k calls) + user_calls (drop k calls)"
    by (rule user_calls_append)
  moreover have "0 \<le> user_calls (drop k calls)"
    by (simp add: user_calls_def)
  ultimately show ?thesis by simp
qed

lemma should_summarize_iff:
  "fst (should_summarize (add_messages calls s))
     \<longleftrightarrow> short_term_limit s \<le> message_counter s + user_calls calls"
  by (simp add: should_summarize_def add_messages_counter add_messages_limit)

text \<open>
  C7. Starting from a manager whose counter is 0, let \<open>calls\<close> be a sequence of
  \<^verbatim>\<open>add_message\<close> calls with fewer user messages than \<^verbatim>\<open>short_term_limit\<close>: then
  \<^verbatim>\<open>should_summarize()\<close> is false after each of its calls. Let \<open>calls'\<close> be a sequence
  whose number of user messages is the limit: after it \<^verbatim>\<open>should_summarize()\<close> is true.
  And \<^verbatim>\<open>should_summarize\<close> leaves every manager as it found it.
\<close>

theorem should_summarize_threshold:
  assumes "message_counter s = 0"
      and "user_calls calls < short_term_limit s"
      and "user_calls calls' = short_term_limit s"
  shows "(\<forall>k \<le> length calls. \<not> fst (should_summarize (add_messages (take k calls) s)))
       \<and> fst (should_summarize (add_messages calls' s))
       \<and> snd (should_summarize t) = t"
proof (intro conjI allI impI)
  fix k
  from assms(2) user_calls_take [of k calls]
  have "user_calls (take k calls) < short_term_limit s" by simp
  with assms(1) show "\<not> fst (should_summarize (add_messages (take k calls) s))"
    by (simp add: should_summarize_iff)
next
  from assms(1,3) show "fst (should_summarize (add_messages calls' s))"
    by (simp add: should_summarize_iff)
next
  show "snd (should_summarize t) = t"
    by (simp add: should_summarize_def)
qed

lemma example_manager_fields:
  "message_counter example_manager = 0"
  "message_buffer example_manager = []"
  "short_term_limit example_manager = 3"
  "short_term_file example_manager = Some short_term_header"
  "long_term_file example_manager = Some long_term_header"
  by (simp_all add: example_manager_def init_def ensure_memory_files_def Let_def)

theorem should_summarize_threshold_witness:
  "message_counter example_manager = 0
   \<and> user_calls (example_turn @ example_turn) < short_term_limit example_manager
   \<and> user_calls (example_turn @ example_turn @ example_turn) = short_term_limit example_manager
   \<and> \<not> fst (should_summarize
              (add_messages (take 3 (example_turn @ example_turn)) example_manager))
   \<and> \<not> fst (should_summarize
              (add_messages (take 4 (example_turn @ example_turn)) example_manager))
   \<and> fst (should_summarize
            (add_messages (example_turn @ example_turn @ example_turn) example_manager))
   \<and> snd (should_summarize example_manager) = example_manager"
proof -
  have h1: "message_counter example_manager = 0"
    by (simp add: example_manager_fields)
  have h2: "user_calls (example_turn @ example_turn) < short_term_limit example_manager"
    by (simp add: example_manager_fields user_calls_def example_turn_def)
  have h3: "user_calls (example_turn @ example_turn @ example_turn)
              = short_term_limit example_manager"
    by (simp add: example_manager_fields user_calls_def example_turn_def)
  note t = should_summarize_threshold [OF h1 h2 h3, of example_manager]
  have k3: "3 \<le> length (example_turn @ example_turn)"
    by (simp add: example_turn_def)
  have k4: "4 \<le> length (example_turn @ example_turn)"
    by (simp add: example_turn_def)
  from t have q: "\<And>k. k \<le> length (example_turn @ example_turn) \<Longrightarrow>
      \<not> fst (should_summarize
               (add_messages (take k (example_turn @ example_turn)) example_manager))"
    by blast
  from t have r: "fst (should_summarize
      (add_messages (example_turn @ example_turn @ example_turn) example_manager))"
    by blast
  from t have u: "snd (should_summarize example_manager) = example_manager"
    by blast
  from h1 h2 h3 q [OF k3] q [OF k4] r u show ?thesis
    by blast
qed

subsection \<open>The counter invariant\<close>

lemma invariant_init: "counter_invariant (init cfg_limit cfg_sessions st lt)"
  by (simp add: counter_invariant_def count_user_def init_def ensure_memory_files_def Let_def)

lemma invariant_add_message:
  "counter_invariant s \<Longrightarrow> counter_invariant (add_message r c s)"
  by (simp add: counter_invariant_def count_user_def add_message_def Let_def)

lemma invariant_summarize:
  "counter_invariant s \<Longrightarrow> counter_invariant (snd (summarize_short_term_memory llm w s))"
  by (cases "write1 w")
     (auto simp: counter_invariant_def count_user_def summarize_short_term_memory_def Let_def
           split: sum.splits prod.splits)

lemma invariant_save:
  "counter_invariant s \<Longrightarrow> counter_invariant (snd (save_to_long_term_memory llm w s))"
  by (cases "write1 w"; cases "write2 w")
     (auto simp: counter_invariant_def count_user_def save_to_long_term_memory_def Let_def
           split: sum.splits prod.splits option.splits)

lemma invariant_clear:
  "counter_invariant (snd (clear_short_term_memory w s))"
  by (cases "write1 w")
     (auto simp: counter_invariant_def count_user_def clear_short_term_memory_def Let_def
           split: prod.splits)

text \<open>
  C8. Every operation of the manager preserves the invariant that the user-message
  counter equals the number of buffered messages whose role is exactly \<^verbatim>\<open>"user"\<close>:
  \<^verbatim>\<open>add_message\<close> with any role string, \<^verbatim>\<open>summarize_short_term_memory\<close>,
  \<^verbatim>\<open>save_to_long_term_memory\<close> and \<^verbatim>\<open>clear_short_term_memory\<close>, whatever the language
  model answers and whether the file writes succeed or raise.
\<close>

theorem counter_invariant_preserved:
  "counter_invariant s \<Longrightarrow> counter_invariant (run_operation llm w op s)"
  by (cases op)
     (simp_all add: invariant_add_message invariant_summarize invariant_save invariant_clear)

theorem counter_invariant_preserved_witness:
  "counter_invariant example_manager
   \<and> counter_invariant (run_operation example_llm example_world
                          (AddMessage ''moderator'' ''hello'') example_manager)
   \<and> counter_invariant (run_operation example_llm failing_world Summarize
                          (add_messages example_turn example_manager))"
  using counter_invariant_preserved
          [of example_manager example_llm example_world "AddMessage ''moderator'' ''hello''"]
        counter_invariant_preserved
          [of "add_messages example_turn example_manager" example_llm failing_world Summarize]
        invariant_init [of "Some 3" None None None]
        invariant_add_message
  by (simp add: example_manager_def example_turn_def)

subsection \<open>Short-term summarization\<close>

lemma pending_manager_fields:
  "message_buffer pending_manager =
     [\<lparr>role = ''user'', content = ''What is a good breakfast?''\<rparr>,
      \<lparr>role = ''assistant'', content = ''Oatmeal with berries, 30g protein''\<rparr>]"
  "message_counter pending_manager = 1"
  "short_term_limit pending_manager = 3"
  "short_term_file pending_manager = Some short_term_header"
  "long_term_file pending_manager = Some long_term_header"
  by (simp_all add: pending_manager_def example_turn_def add_message_def Let_def
        example_manager_fields)

text \<open>
  C10. With an empty buffer \<^verbatim>\<open>summarize_short_term_memory\<close> returns the empty string and
  leaves the manager and both files exactly as they were. The result is the same for every
  language model, also one that would raise, and for every outcome a file write would
  have: the model is not called and no write is attempted.
\<close>

theorem summarize_empty_buffer:
  "message_buffer s = [] \<Longrightarrow> summarize_short_term_memory llm w s = (Inr [], s)"
  by (simp add: summarize_short_term_memory_def)

theorem summarize_empty_buffer_witness:
  "message_buffer example_manager = []
   \<and> summarize_short_term_memory failing_llm failing_world example_manager
       = (Inr [], example_manager)"
  using summarize_empty_buffer [of example_manager failing_llm failing_world]
  by (simp add: example_manager_fields)

lemma summarize_failed_write_keeps_memory:
  assumes "write1 w \<noteq> IO_Ok"
  shows "message_buffer (snd (summarize_short_term_memory llm w s)) = message_buffer s
       \<and> message_counter (snd (summarize_short_term_memory llm w s)) = message_counter s"
  using assms
  by (cases "write1 w")
     (auto simp: summarize_short_term_memory_def Let_def split: sum.splits prod.splits)

text \<open>
  C9. When \<^verbatim>\<open>summarize_short_term_memory\<close> reaches the write that appends the summary
  (the buffer is not empty and the language model returned a summary) and that write
  raises, whether at \<^verbatim>\<open>open\<close> or after part of the entry was written, the call raises the
  I/O error and the buffer and the counter are what they were before the call.
\<close>

theorem summarize_write_failure:
  assumes "write1 w \<noteq> IO_Ok"
      and "message_buffer s \<noteq> []"
      and "llm (short_term_prompt (slice_from (- short_term_limit s) (message_buffer s))) 512
             = Inr summary"
  shows "fst (summarize_short_term_memory llm w s) = Inl IOError
       \<and> message_buffer (snd (summarize_short_term_memory llm w s)) = message_buffer s
       \<and> message_counter (snd (summarize_short_term_memory llm w s)) = message_counter s"
  using assms
  by (cases "write1 w")
     (auto simp: summarize_short_term_memory_def Let_def split: sum.splits prod.splits)

theorem summarize_write_failure_witness:
  "write1 failing_world \<noteq> IO_Ok
   \<and> message_buffer pending_manager \<noteq> []
   \<and> example_llm (short_term_prompt
         (slice_from (- short_term_limit pending_manager) (message_buffer pending_manager))) 512
       = Inr ''Oatmeal with berries''
   \<and> fst (summarize_short_term_memory example_llm failing_world pending_manager) = Inl IOError
   \<and> message_buffer (snd (summarize_short_term_memory example_llm failing_world pending_manager))
       = message_buffer pending_manager
   \<and> message_counter (snd (summarize_short_term_memory example_llm failing_world pending_manager))
       = message_counter pending_manager"
  using summarize_write_failure
          [of failing_world pending_manager example_llm "''Oatmeal with berries''"]
  by (simp add: failing_world_def pending_manager_fields example_llm_def)

subsection \<open>Stores that begin with their header\<close>

text \<open>
  The header that \<^verbatim>\<open>_ensure_memory_files\<close> writes begins with \<^verbatim>\<open>#\<close>, and the entries
  are appended after it. The test the source applies before it uses a store,
  \<^verbatim>\<open>content.strip().startswith("#")\<close>, looks at the first character only: it holds for
  the header alone and for the header followed by any number of entries.
\<close>

lemma strip_Cons_nonspace:
  "\<not> isspace c \<Longrightarrow> strip (c # xs) = c # rev (dropWhile isspace (rev xs))"
  by (simp add: strip_def dropWhile_append)

lemma startswith_Cons: "startswith (c # xs) [c]"
  by (simp add: startswith_def)

lemma hash_not_space: "\<not> isspace (CHR ''#'')"
  by (simp add: isspace_def)

lemma strip_hash: "startswith (strip (CHR ''#'' # rest)) ''#''"
  by (simp add: strip_Cons_nonspace hash_not_space startswith_Cons)

lemma strip_short_term_header: "startswith (strip (short_term_header @ rest)) ''#''"
  using strip_hash by (simp add: short_term_header_def)

lemma strip_long_term_header: "startswith (strip (long_term_header @ rest)) ''#''"
  using strip_hash by (simp add: long_term_header_def)

lemma no_content_short_term_header: "no_content (short_term_header @ rest)"
  by (simp add: no_content_def strip_short_term_header)

lemma no_content_long_term_header: "no_content (long_term_header @ rest)"
  by (simp add: no_content_def strip_long_term_header)

lemma save_skips_headed_store:
  "short_term_file s = Some (short_term_header @ rest) \<Longrightarrow>
     save_to_long_term_memory llm w s = (Inr (), s)"
  by (simp add: save_to_long_term_memory_def no_content_short_term_header)

lemma short_term_context_headed_store:
  "message_buffer s = [] \<Longrightarrow> short_term_file s = Some (short_term_header @ rest) \<Longrightarrow>
     get_short_term_memory_context s = []"
  by (simp add: get_short_term_memory_context_def strip_short_term_header)

lemma history_headed_store:
  "long_term_file s = Some (long_term_header @ rest) \<Longrightarrow>
     get_long_term_history s = ''No previous session summaries found.''"
  by (simp add: get_long_term_history_def no_content_long_term_header)

lemma load_context_headed_store:
  "long_term_file s = Some (long_term_header @ rest) \<Longrightarrow>
     load_long_term_memory_context s = []"
  by (simp add: load_long_term_memory_context_def no_content_long_term_header)

lemma history_absent:
  "long_term_file s = None \<Longrightarrow> get_long_term_history s = ''No long-term memory found.''"
  by (simp add: get_long_term_history_def)

lemma history_verbatim:
  "long_term_file s = Some t \<Longrightarrow> \<not> no_content t \<Longrightarrow> get_long_term_history s = t"
  by (simp add: get_long_term_history_def)

lemma example_timestamp:
  "strftime_datetime example_clock = ''2024-05-17 09:30:00''"
  "strftime_date example_clock = ''2024-05-17''"
  by (simp_all add: strftime_datetime_def strftime_date_def pad2_def pad4_def digit_def
        example_clock_def)

lemma summarized_manager_fields:
  "short_term_file summarized_manager =
     Some (short_term_header @ short_term_entry ''2024-05-17 09:30:00'' ''Oatmeal with berries'')"
  "long_term_file summarized_manager = Some long_term_header"
  "message_buffer summarized_manager = []"
  "message_counter summarized_manager = 0"
  by (simp_all add: summarized_manager_def summarize_short_term_memory_def Let_def
        example_turn_def add_message_def example_manager_fields example_llm_def
        example_world_def example_timestamp file_text_def)

lemma archived_manager_fields:
  "long_term_file archived_manager =
     Some (long_term_header
           @ long_term_entry ''2024-05-17'' ''2024-05-17 09:30:00'' ''Prefers oatmeal'')"
  "long_term_sessions archived_manager = 3"
  by (simp_all add: archived_manager_def example_manager_def init_def ensure_memory_files_def)

lemma archived_sessions:
  "extract_sessions
     (long_term_header
      @ long_term_entry ''2024-05-17'' ''2024-05-17 09:30:00'' ''Prefers oatmeal'')
   = [''=== Session Summary (2024-05-17) - 2024-05-17 09:30:00 ===\<newline>Prefers oatmeal\<newline>''
      @ closing_delimiter]"
  by code_simp

text \<open>
  C1. The claim is that consolidation of a short-term store with real summaries appends
  one entry to the long-term store and resets the short-term store. Evaluated on the
  store the code itself produces (the header written at start-up, then the summary
  appended when the threshold of three user messages was reached),
  \<^verbatim>\<open>save_to_long_term_memory\<close> returns at its guard: nothing is appended to the long-term
  store, which still holds its header only, and the short-term store keeps its summary.
\<close>

theorem save_skips_summarized_store:
  "short_term_file summarized_manager =
     Some (short_term_header @ short_term_entry ''2024-05-17 09:30:00'' ''Oatmeal with berries'')
   \<and> save_to_long_term_memory example_llm example_world summarized_manager
       = (Inr (), summarized_manager)
   \<and> long_term_file summarized_manager = Some long_term_header"
  using save_skips_headed_store [of summarized_manager _ example_llm example_world]
  by (simp add: summarized_manager_fields)

text \<open>
  C4. The claim is that with an empty buffer the short-term context is the raw content of
  the short-term store unless that store is empty or header-only. Evaluated on the same
  store, header followed by one summary, with the buffer empty after the summarization,
  \<^verbatim>\<open>get_short_term_memory_context\<close> returns the empty string.
\<close>

theorem short_term_context_hides_summaries:
  "message_buffer summarized_manager = []
   \<and> short_term_file summarized_manager =
       Some (short_term_header
             @ short_term_entry ''2024-05-17 09:30:00'' ''Oatmeal with berries'')
   \<and> get_short_term_memory_context summarized_manager = []"
  by (simp add: get_short_term_memory_context_def summarized_manager_fields
        strip_short_term_header)

text \<open>
  C5. The claim is that \<^verbatim>\<open>get_long_term_history\<close> returns the long-term store verbatim
  whenever it contains entries. Evaluated on a store that holds the header and one session
  entry, it returns the text for a store without summaries.
\<close>

theorem history_hides_entries:
  "long_term_file archived_manager =
     Some (long_term_header
           @ long_term_entry ''2024-05-17'' ''2024-05-17 09:30:00'' ''Prefers oatmeal'')
   \<and> length (extract_sessions (file_text (long_term_file archived_manager))) = 1
   \<and> get_long_term_history archived_manager = ''No previous session summaries found.''"
  by (simp add: get_long_term_history_def archived_manager_fields no_content_long_term_header
        archived_sessions file_text_def)

text \<open>
  C2. The claim is that \<^verbatim>\<open>load_long_term_memory_context\<close> returns the last
  \<open>min K C\<close> of the \<open>K\<close> entries of the store, for the cap \<open>C\<close>. Evaluated on a
  store that holds the header and one session entry, with the cap 3, it returns the empty
  string: no entry, where \<open>min 1 3 = 1\<close>.
\<close>

theorem load_context_hides_entries:
  "long_term_sessions archived_manager = 3
   \<and> length (extract_sessions (file_text (long_term_file archived_manager))) = 1
   \<and> load_long_term_memory_context archived_manager = []"
  by (simp add: load_long_term_memory_context_def archived_manager_fields
        no_content_long_term_header archived_sessions file_text_def)

subsection \<open>Lines of a store\<close>












subsection \<open>Entries of the short-term store after a summarization\<close>










subsection \<open>The scan of the long-term store\<close>
























end
